theory Spec2Isabelle
  imports Complex_Main "HOL-Library.Code_Target_Nat"
begin

section \<open>Oil logistics: inventory ledger, purchase and sales handlers, price quotation\<close>

text \<open>
  The application keeps three tables (purchases, sales, inventory) in CSV files. Every
  page loads the tables, runs one form or editor handler and saves what the handler
  changed. A handler is modelled as a function from the loaded tables and the submitted
  form values to the saved tables; a handler that only shows a warning or an error, or
  that raises, saves nothing.

  Python floats are modelled as exact rationals: on this model \<open>+\<close>, \<open>-\<close>, \<open>*\<close>
  and \<open>/\<close> do not round. The clock readings the source takes (\<open>time.time()\<close>,
  \<open>time.localtime().tm_yday\<close>) are parameters of the functions that read them.
\<close>

subsection \<open>Python values\<close>

datatype py_error = KeyError | IndexError | TypeError

text \<open>
  \<open>round(x)\<close> of Python 3: the nearest integer, a tie going to the even neighbour.
  \<open>round(x, n)\<close> is the same rounding at the \<open>n\<close>-th decimal.
\<close>

definition py_round :: "rat \<Rightarrow> int" where
  "py_round x =
     (let f = \<lfloor>x\<rfloor>; r = x - of_int f
      in if r < 1 / 2 then f
         else if 1 / 2 < r then f + 1
         else if even f then f else f + 1)"

definition py_round_ndigits :: "rat \<Rightarrow> nat \<Rightarrow> rat" where
  "py_round_ndigits x n = of_int (py_round (x * 10 ^ n)) / 10 ^ n"

subsection \<open>Constants (app.py, pages)\<close>

definition OIL_DENSITIES :: "(string \<times> rat) list" where
  "OIL_DENSITIES =
     [(''Crude Degummed Oil'', 92 / 100), (''Palm Oil'', 915 / 1000),
      (''Palm Degummed'', 918 / 1000), (''Crude Sunflower Oil'', 922 / 1000)]"

definition OIL_TYPES :: "string list" where
  "OIL_TYPES = map fst OIL_DENSITIES"

definition TRANSPORT_COST_PER_KM :: rat where
  "TRANSPORT_COST_PER_KM = 12"

definition IGST_RATE :: rat where
  "IGST_RATE = 5 / 100"

definition SHIPMENT_STATUSES :: "string list" where
  "SHIPMENT_STATUSES = [''In Transit'', ''At Port'', ''Reached Factory'']"

definition ORDER_STATUSES :: "string list" where
  "ORDER_STATUSES = [''Under Process'', ''Confirmed'', ''Dispatched'', ''Fulfilled'']"

subsection \<open>Price oracle and price calculation\<close>

text \<open>
  \<open>get_simulated_oil_prices\<close>: the argument is the day of the year the source reads
  from the clock. The result is the pair of the current prices and the previous day's.
\<close>

definition get_simulated_oil_prices :: "nat \<Rightarrow> (string \<times> int) list \<times> (string \<times> rat) list" where
  "get_simulated_oil_prices day_of_year =
     (let base_price = 80000 + int day_of_year * 15;
          prices = [(''Crude Degummed Oil'', base_price), (''Palm Oil'', base_price - 5000),
                    (''Palm Degummed'', base_price - 4500),
                    (''Crude Sunflower Oil'', base_price + 3000)]
      in (prices, map (\<lambda>(k, v). (k, of_int v * (99 / 100))) prices))"

text \<open>The arithmetic both copies of \<open>calculate_sale_price\<close> share, after their guard.\<close>

definition price_body :: "nat \<Rightarrow> string \<Rightarrow> rat \<Rightarrow> rat \<Rightarrow> py_error + (int \<times> rat)" where
  "price_body day_of_year oil_type quantity_mt distance_km =
     (let current_prices = fst (get_simulated_oil_prices day_of_year)
      in case map_of OIL_DENSITIES oil_type of
           None \<Rightarrow> Inl KeyError
         | Some density \<Rightarrow>
             (case map_of current_prices oil_type of
                None \<Rightarrow> Inl KeyError
              | Some price \<Rightarrow>
                  (let base_oil_price = of_int price * quantity_mt;
                       quantity_litres = (quantity_mt * 1000) / density;
                       premium_cost = quantity_litres * 10;
                       transport_cost = distance_km * TRANSPORT_COST_PER_KM;
                       sub_total = base_oil_price + premium_cost + transport_cost;
                       gst_amount = sub_total * IGST_RATE;
                       total_price = sub_total + gst_amount;
                       final_price = py_round total_price;
                       price_per_lt =
                         (if quantity_litres > 0
                          then py_round_ndigits (of_int final_price / quantity_litres) 2
                          else 0)
                   in Inr (final_price, price_per_lt))))"

text \<open>\<open>calculate_sale_price\<close> of app.py (the dashboard).\<close>

definition calculate_sale_price :: "nat \<Rightarrow> string \<Rightarrow> rat \<Rightarrow> rat \<Rightarrow> py_error + (int \<times> rat)" where
  "calculate_sale_price day_of_year oil_type quantity_mt distance_km =
     (if quantity_mt \<le> 0 \<or> distance_km \<le> 0 then Inr (0, 0)
      else price_body day_of_year oil_type quantity_mt distance_km)"

text \<open>\<open>calculate_sale_price\<close> of the sales page: its guard reads the quantity only.\<close>

definition calculate_sale_price_sales :: "nat \<Rightarrow> string \<Rightarrow> rat \<Rightarrow> rat \<Rightarrow> py_error + (int \<times> rat)" where
  "calculate_sale_price_sales day_of_year oil_type quantity_mt distance_km =
     (if quantity_mt \<le> 0 then Inr (0, 0)
      else price_body day_of_year oil_type quantity_mt distance_km)"

subsection \<open>Tables\<close>

text \<open>
  A table is the list of its rows, in row order; the row's position is its index (the
  tables are read from CSV, so the index is \<open>0, 1, 2, ...\<close>). The columns of
  purchases.csv and sales.csv that share a name with a column of inventory.csv carry a
  prefix.
\<close>

record inventory_row =
  OilType :: string
  InventoryType :: string
  QuantityMT :: rat

type_synonym inventory = "inventory_row list"

record purchase_row =
  ShipmentID :: string
  p_OilType :: string
  p_QuantityMT :: rat
  PricePerMT :: rat
  TotalCost :: rat
  PurchaseDate :: string
  p_Status :: string
  Supplier :: string

record sale_row =
  OrderID :: string
  VendorName :: string
  Destination :: string
  DistanceKM :: int
  s_OilType :: string
  s_QuantityMT :: rat
  SalePrice :: int
  OrderDate :: string
  s_Status :: string

text \<open>What a handler shows: the kind of the Streamlit message, without its text.\<close>

datatype message = st_warning | st_error | st_success | st_info

text \<open>The inventory table \<open>initialize_data_files\<close> writes when there is none.\<close>

definition initial_inventory :: inventory where
  "initial_inventory =
     map (\<lambda>(oil, pool). \<lparr>OilType = oil, InventoryType = pool, QuantityMT = 0\<rparr>)
       (zip (concat (map (\<lambda>oil. [oil, oil]) OIL_TYPES))
            (concat (replicate (length OIL_TYPES) [''Crude'', ''Refined''])))"

subsection \<open>Reading and updating the inventory table\<close>

text \<open>
  \<open>df[mask].index[0]\<close> and \<open>df.index[mask].tolist()\<close> followed by \<open>[0]\<close>: the index
  of the first row the mask selects, \<open>None\<close> when it selects none.
\<close>

fun first_index :: "('a \<Rightarrow> bool) \<Rightarrow> 'a list \<Rightarrow> nat option" where
  "first_index P [] = None"
| "first_index P (x # xs) = (if P x then Some 0 else map_option Suc (first_index P xs))"

text \<open>The mask \<open>(df['OilType'] == oil) & (df['InventoryType'] == pool)\<close>.\<close>

definition is_row :: "string \<Rightarrow> string \<Rightarrow> inventory_row \<Rightarrow> bool" where
  "is_row oil pool r \<longleftrightarrow> OilType r = oil \<and> InventoryType r = pool"

text \<open>
  \<open>df[df['InventoryType'] == pool].set_index('OilType').loc[oil, 'QuantityMT']\<close> as the
  pages use it, as a number: a missing label raises KeyError, a label that stands on
  several rows gives a Series, which the pages' number formatting refuses (TypeError).
\<close>

definition loc_quantity :: "inventory \<Rightarrow> string \<Rightarrow> string \<Rightarrow> py_error + rat" where
  "loc_quantity inventory_df pool oil =
     (case filter (\<lambda>r. OilType r = oil) (filter (\<lambda>r. InventoryType r = pool) inventory_df) of
        [] \<Rightarrow> Inl KeyError
      | [r] \<Rightarrow> Inr (QuantityMT r)
      | _ \<Rightarrow> Inl TypeError)"

text \<open>
  The select box labels: the available quantity of every oil type of the list, in the
  given pool. Building them fails where one lookup fails.
\<close>

fun oil_options_labels :: "inventory \<Rightarrow> string \<Rightarrow> string list \<Rightarrow> py_error + rat list" where
  "oil_options_labels inventory_df pool [] = Inr []"
| "oil_options_labels inventory_df pool (oil # oils) =
     (case loc_quantity inventory_df pool oil of
        Inl e \<Rightarrow> Inl e
      | Inr q \<Rightarrow>
          (case oil_options_labels inventory_df pool oils of
             Inl e \<Rightarrow> Inl e
           | Inr qs \<Rightarrow> Inr (q # qs)))"

text \<open>\<open>df.loc[idx, 'QuantityMT'] += amount\<close> (and \<open>-=\<close>, with the amount negated).\<close>

definition add_quantity :: "inventory \<Rightarrow> nat \<Rightarrow> rat \<Rightarrow> inventory" where
  "add_quantity inventory_df idx amount =
     inventory_df[idx := (inventory_df ! idx)\<lparr>QuantityMT := QuantityMT (inventory_df ! idx) + amount\<rparr>]"

subsection \<open>Inventory page: the refining form\<close>

text \<open>
  The submit handler of \<open>refining_form\<close>, with the page code it depends on (the labels
  and \<open>max_refine_qty\<close>). The result is the inventory table on file after the handler
  and the message shown; \<open>Inl\<close> is an exception, raised before anything is written.
  The number input's own bounds are not modelled: the handler checks them again.
\<close>

definition refining_form :: "inventory \<Rightarrow> string \<Rightarrow> rat \<Rightarrow> py_error + (inventory \<times> message)" where
  "refining_form inventory_df oil_to_refine quantity_to_refine =
     (case oil_options_labels inventory_df ''Crude'' OIL_TYPES of
        Inl e \<Rightarrow> Inl e
      | Inr labels \<Rightarrow>
     (case loc_quantity inventory_df ''Crude'' oil_to_refine of
        Inl e \<Rightarrow> Inl e
      | Inr max_refine_qty \<Rightarrow>
          if quantity_to_refine \<le> 0 then Inr (inventory_df, st_warning)
          else if quantity_to_refine > max_refine_qty then Inr (inventory_df, st_error)
          else
            (case first_index (is_row oil_to_refine ''Crude'') inventory_df of
               None \<Rightarrow> Inl IndexError
             | Some crude_idx \<Rightarrow>
            (case first_index (is_row oil_to_refine ''Refined'') inventory_df of
               None \<Rightarrow> Inl IndexError
             | Some refined_idx \<Rightarrow>
                 Inr (add_quantity (add_quantity inventory_df crude_idx (- quantity_to_refine))
                        refined_idx quantity_to_refine,
                      st_success)))))"

subsection \<open>Purchase page: logging a purchase, editing a status\<close>

text \<open>\<open>str(n)\<close> for an integer: its decimal digits, with a sign when negative.\<close>

definition digit_char :: "nat \<Rightarrow> char" where
  "digit_char d = ''0123456789'' ! d"

fun str_nat :: "nat \<Rightarrow> string" where
  "str_nat n =
     (if n < 10 then [digit_char n]
      else str_nat (n div 10) @ [digit_char (n mod 10)])"

declare str_nat.simps [simp del]

definition str_int :: "int \<Rightarrow> string" where
  "str_int i = (if i < 0 then CHR ''-'' # str_nat (nat (- i)) else str_nat (nat i))"

text \<open>
  The submit handler of \<open>new_purchase_form\<close>. \<open>now\<close> is \<open>int(time.time())\<close>, the clock
  in whole seconds; \<open>purchase_date\<close> is the date already formatted.
\<close>

definition new_purchase_form ::
  "purchase_row list \<Rightarrow> int \<Rightarrow> string \<Rightarrow> string \<Rightarrow> rat \<Rightarrow> rat \<Rightarrow> string
     \<Rightarrow> purchase_row list \<times> message" where
  "new_purchase_form purchases now supplier oil_type quantity_mt price_per_mt purchase_date =
     (if supplier = [] \<or> quantity_mt \<le> 0 then (purchases, st_warning)
      else
        (let total_cost = quantity_mt * price_per_mt;
             shipment_id = ''SHP-'' @ str_int now;
             new_purchase =
               \<lparr>ShipmentID = shipment_id, p_OilType = oil_type, p_QuantityMT = quantity_mt,
                PricePerMT = price_per_mt, TotalCost = total_cost,
                PurchaseDate = purchase_date, p_Status = ''In Transit'',
                Supplier = supplier\<rparr>
         in (purchases @ [new_purchase], st_success)))"

text \<open>
  The body of the loop over \<open>edited_df.iterrows()\<close>: \<open>orig\<close> is the row of the loaded
  table at the same index, \<open>row\<close> the edited row.
\<close>

definition credit_row ::
  "purchase_row \<Rightarrow> purchase_row \<Rightarrow> inventory \<times> message list \<Rightarrow> inventory \<times> message list" where
  "credit_row orig row im =
     (let original_status = p_Status orig; new_status = p_Status row
      in if original_status \<noteq> new_status then
           (if new_status = ''Reached Factory'' \<and> original_status \<noteq> ''Reached Factory'' then
              (let oil_type = p_OilType row; quantity = p_QuantityMT row
               in case first_index (is_row oil_type ''Crude'') (fst im) of
                    None \<Rightarrow> im
                  | Some inv_index \<Rightarrow>
                      (add_quantity (fst im) inv_index quantity, snd im @ [st_success]))
            else im)
         else im)"

text \<open>
  The loop. The data editor has a fixed number of rows, so the edited table has as
  many rows as the loaded one and the loop pairs them by index.
\<close>

fun iterrows ::
  "purchase_row list \<Rightarrow> purchase_row list \<Rightarrow> inventory \<times> message list
     \<Rightarrow> inventory \<times> message list" where
  "iterrows (orig # purchases) (row # edited_df) im =
     iterrows purchases edited_df (credit_row orig row im)"
| "iterrows _ _ im = im"

text \<open>
  The handler below the data editor: when the edited table differs from the loaded
  one, the loop runs and both tables are saved.
\<close>

definition purchase_editor ::
  "purchase_row list \<Rightarrow> inventory \<Rightarrow> purchase_row list
     \<Rightarrow> (purchase_row list \<times> inventory) \<times> message list" where
  "purchase_editor purchases inventory edited_df =
     (if edited_df = purchases then ((purchases, inventory), [])
      else
        (let (inventory', msgs) = iterrows purchases edited_df (inventory, [])
         in ((edited_df, inventory'), msgs @ [st_info])))"

text \<open>
  One edit in the data editor: the status cell of the row at \<open>index\<close> is set, every
  other cell is as loaded (the other columns are disabled). \<open>update_status\<close> is the
  handler run on that edit.
\<close>

definition set_status :: "purchase_row list \<Rightarrow> nat \<Rightarrow> string \<Rightarrow> purchase_row list" where
  "set_status purchases index new_status =
     (if index < length purchases
      then purchases[index := (purchases ! index)\<lparr>p_Status := new_status\<rparr>]
      else purchases)"

definition update_status ::
  "nat \<Rightarrow> string \<Rightarrow> purchase_row list \<times> inventory
     \<Rightarrow> (purchase_row list \<times> inventory) \<times> message list" where
  "update_status index new_status tables =
     purchase_editor (fst tables) (snd tables) (set_status (fst tables) index new_status)"

text \<open>A sequence of status edits of one row, each on the tables the last one saved.\<close>

fun update_statuses ::
  "nat \<Rightarrow> string list \<Rightarrow> purchase_row list \<times> inventory \<Rightarrow> purchase_row list \<times> inventory" where
  "update_statuses index [] tables = tables"
| "update_statuses index (s # ss) tables =
     update_statuses index ss (fst (update_status index s tables))"

subsection \<open>Sales page: booking an order\<close>

text \<open>
  The submit handler of \<open>new_sale_form\<close>, with the page code before it (the labels and
  the price preview, whose total the order records). \<open>day_of_year\<close> and \<open>now\<close> are
  the clock readings; \<open>order_date\<close> is the date already formatted. The result is the
  two tables on file after the handler and the message shown.
\<close>

definition new_sale_form ::
  "sale_row list \<Rightarrow> inventory \<Rightarrow> nat \<Rightarrow> int \<Rightarrow> string \<Rightarrow> string \<Rightarrow> int \<Rightarrow> string \<Rightarrow> rat
     \<Rightarrow> string \<Rightarrow> py_error + (sale_row list \<times> inventory \<times> message)" where
  "new_sale_form sales inventory day_of_year now vendor_name destination distance_km oil_type
       quantity_mt order_date =
     (case oil_options_labels inventory ''Refined'' OIL_TYPES of
        Inl e \<Rightarrow> Inl e
      | Inr labels \<Rightarrow>
     (case calculate_sale_price_sales day_of_year oil_type quantity_mt (of_int distance_km) of
        Inl e \<Rightarrow> Inl e
      | Inr (final_price, price_per_lt) \<Rightarrow>
          if vendor_name = [] \<or> destination = [] \<or> quantity_mt \<le> 0 \<or> distance_km \<le> 0
          then Inr (sales, inventory, st_warning)
          else
            (case loc_quantity inventory ''Refined'' oil_type of
               Inl e \<Rightarrow> Inl e
             | Inr available_stock \<Rightarrow>
                 (let order_id = ''ORD-'' @ str_int now;
                      new_sale = (\<lambda>status.
                        \<lparr>OrderID = order_id, VendorName = vendor_name,
                         Destination = destination, DistanceKM = distance_km,
                         s_OilType = oil_type, s_QuantityMT = quantity_mt,
                         SalePrice = final_price, OrderDate = order_date, s_Status = status\<rparr>)
                  in if quantity_mt > available_stock
                     then Inr (sales @ [new_sale ''Under Process''], inventory, st_warning)
                     else
                       (case first_index (is_row oil_type ''Refined'') inventory of
                          None \<Rightarrow> Inl IndexError
                        | Some refined_idx \<Rightarrow>
                            Inr (sales @ [new_sale ''Confirmed''],
                                 add_quantity inventory refined_idx (- quantity_mt),
                                 st_success))))))"

subsection \<open>The three tables under a sequence of operations\<close>

record tables =
  purchases :: "purchase_row list"
  sales :: "sale_row list"
  inventory :: inventory

datatype operation =
    LogPurchase int string string rat rat string
  | UpdateStatus nat string
  | Refine string rat
  | BookOrder nat int string string int string rat string

text \<open>
  One operation on the tables on file. A handler that raises has written nothing, so the
  tables stay as they were.
\<close>

fun apply_operation :: "operation \<Rightarrow> tables \<Rightarrow> tables" where
  "apply_operation (LogPurchase now supplier oil_type quantity_mt price_per_mt purchase_date) t =
     t\<lparr>purchases :=
         fst (new_purchase_form (purchases t) now supplier oil_type quantity_mt price_per_mt
                purchase_date)\<rparr>"
| "apply_operation (UpdateStatus index new_status) t =
     (let (purchases', inventory') = fst (update_status index new_status (purchases t, inventory t))
      in t\<lparr>purchases := purchases', inventory := inventory'\<rparr>)"
| "apply_operation (Refine oil_to_refine quantity_to_refine) t =
     (case refining_form (inventory t) oil_to_refine quantity_to_refine of
        Inl e \<Rightarrow> t
      | Inr (inventory', msg) \<Rightarrow> t\<lparr>inventory := inventory'\<rparr>)"
| "apply_operation
     (BookOrder day_of_year now vendor_name destination distance_km oil_type quantity_mt order_date) t =
     (case new_sale_form (sales t) (inventory t) day_of_year now vendor_name destination
             distance_km oil_type quantity_mt order_date of
        Inl e \<Rightarrow> t
      | Inr (sales', inventory', msg) \<Rightarrow> t\<lparr>sales := sales', inventory := inventory'\<rparr>)"

fun apply_operations :: "operation list \<Rightarrow> tables \<Rightarrow> tables" where
  "apply_operations [] t = t"
| "apply_operations (op # ops) t = apply_operations ops (apply_operation op t)"

text \<open>Every quantity of the inventory table is at least 0.\<close>

definition quantities_nonneg :: "inventory \<Rightarrow> bool" where
  "quantities_nonneg inventory_df \<longleftrightarrow> list_all (\<lambda>r. 0 \<le> QuantityMT r) inventory_df"

text \<open>Every purchase on file has a quantity above 0, as the purchase form requires.\<close>

definition purchases_positive :: "purchase_row list \<Rightarrow> bool" where
  "purchases_positive ps \<longleftrightarrow> list_all (\<lambda>p. 0 < p_QuantityMT p) ps"

subsection \<open>The quotation as the specification words it\<close>

text \<open>
  The specification's formula for a quote, for a market price and a density:
  \<open>total = round((price * q + ((q * 1000) / density) * 10 + d * 12) * (1 + 0.05))\<close> and
  \<open>pricePerVolumeUnit = round(total / volume, 2)\<close> with \<open>volume = (q * 1000) / density\<close>,
  0 when the volume is not positive. It is compared below with \<open>calculate_sale_price\<close>.
\<close>

definition quote_spec :: "rat \<Rightarrow> rat \<Rightarrow> rat \<Rightarrow> rat \<Rightarrow> int \<times> rat" where
  "quote_spec price density q d =
     (let volume = (q * 1000) / density;
          total = py_round ((price * q + ((q * 1000) / density) * 10 + d * 12) * (1 + 5 / 100))
      in (total, if volume > 0 then py_round_ndigits (of_int total / volume) 2 else 0))"

subsection \<open>Data model invariant and example tables\<close>


text \<open>The tables of a fresh installation, and a purchases table with one logged purchase.\<close>

definition initial_tables :: tables where
  "initial_tables = \<lparr>purchases = [], sales = [], inventory = initial_inventory\<rparr>"

definition example_purchases :: "purchase_row list" where
  "example_purchases =
     fst (new_purchase_form [] 1700000000 ''Global Oil Traders'' ''Palm Oil'' 5 70000 ''2024-01-01'')"

text \<open>A run of every kind of operation, from the tables of a fresh installation.\<close>

definition example_operations :: "operation list" where
  "example_operations =
     [LogPurchase 1700000000 ''Global Oil Traders'' ''Palm Oil'' 5 70000 ''2024-01-01'',
      UpdateStatus 0 ''Reached Factory'',
      Refine ''Palm Oil'' 3,
      BookOrder 1 1700000100 ''National Retailers'' ''Mumbai Warehouse'' 100 ''Palm Oil'' 2
        ''2024-01-02'',
      BookOrder 1 1700000200 ''National Retailers'' ''Mumbai Warehouse'' 100 ''Palm Oil'' 2
        ''2024-01-02'']"

section \<open>Properties\<close>

subsection \<open>Price quotation\<close>


lemma price_keys: "map fst (fst (get_simulated_oil_prices day)) = OIL_TYPES"
  by (simp add: get_simulated_oil_prices_def Let_def OIL_TYPES_def OIL_DENSITIES_def)

lemma density_defined:
  assumes "oil_type \<in> set OIL_TYPES"
  shows "\<exists>density. map_of OIL_DENSITIES oil_type = Some density"
proof -
  from assms have "oil_type \<in> fst ` set OIL_DENSITIES" by (simp add: OIL_TYPES_def)
  then have "map_of OIL_DENSITIES oil_type \<noteq> None" by (simp only: map_of_eq_None_iff not_not)
  then show ?thesis by blast
qed

lemma price_defined:
  assumes "oil_type \<in> set OIL_TYPES"
  shows "\<exists>price. map_of (fst (get_simulated_oil_prices day)) oil_type = Some price"
proof -
  from assms have "oil_type \<in> set (map fst (fst (get_simulated_oil_prices day)))"
    by (simp only: price_keys)
  then have "oil_type \<in> fst ` set (fst (get_simulated_oil_prices day))" by simp
  then have "map_of (fst (get_simulated_oil_prices day)) oil_type \<noteq> None"
    by (simp only: map_of_eq_None_iff not_not)
  then show ?thesis by blast
qed

lemma density_pos:
  assumes "map_of OIL_DENSITIES oil_type = Some density"
  shows "0 < density"
proof -
  from assms have "(oil_type, density) \<in> set OIL_DENSITIES" by (rule map_of_SomeD)
  then show ?thesis by (auto simp add: OIL_DENSITIES_def)
qed

lemma price_pos:
  assumes "map_of (fst (get_simulated_oil_prices day)) oil_type = Some price"
  shows "75000 \<le> price"
proof -
  from assms have "(oil_type, price) \<in> set (fst (get_simulated_oil_prices day))"
    by (rule map_of_SomeD)
  then show ?thesis by (auto simp add: get_simulated_oil_prices_def Let_def)
qed


lemma py_round_le: "of_int (py_round x) \<le> x + 1 / 2"
  unfolding py_round_def Let_def by (auto; linarith)

lemma py_round_ge: "x - 1 / 2 \<le> of_int (py_round x)"
  unfolding py_round_def Let_def by (auto; linarith)

lemma py_round_mono:
  assumes "x \<le> y" shows "py_round x \<le> py_round y"
proof (cases "x = y")
  case True then show ?thesis by simp
next
  case False
  with assms have lt: "x < y" by simp
  show ?thesis
  proof (rule ccontr)
    assume "\<not> py_round x \<le> py_round y"
    then have "py_round y + 1 \<le> py_round x" by simp
    then have "(of_int (py_round y) :: rat) + 1 \<le> of_int (py_round x)"
      by (metis of_int_le_iff of_int_add of_int_1)
    with py_round_le [of x] py_round_ge [of y] lt show False by linarith
  qed
qed

lemma py_round_nonneg: "0 \<le> x \<Longrightarrow> 0 \<le> py_round x"
  using py_round_mono [of 0 x] by (simp add: py_round_def)

lemma total_price_eq: "s + s * IGST_RATE = s * (1 + 5 / 100)"
  by (simp add: IGST_RATE_def algebra_simps)

lemma price_body_known:
  assumes "map_of (fst (get_simulated_oil_prices day)) oil_type = Some price"
    and "map_of OIL_DENSITIES oil_type = Some density"
  shows "price_body day oil_type q d = Inr (quote_spec (of_int price) density q d)"
  using assms
  by (simp only: price_body_def Let_def quote_spec_def total_price_eq TRANSPORT_COST_PER_KM_def
        option.case)

lemma price_body_Inr:
  assumes "price_body day oil_type q d = Inr r"
  shows "oil_type \<in> set OIL_TYPES"
proof -
  from assms obtain density where "map_of OIL_DENSITIES oil_type = Some density"
    by (cases "map_of OIL_DENSITIES oil_type") (simp_all add: price_body_def Let_def)
  then have "(oil_type, density) \<in> set OIL_DENSITIES" by (rule map_of_SomeD)
  then have "fst (oil_type, density) \<in> fst ` set OIL_DENSITIES" by (rule imageI)
  then show ?thesis by (simp add: OIL_TYPES_def)
qed





lemma fst_quote_spec:
  "fst (quote_spec price density q d)
     = py_round ((price * q + ((q * 1000) / density) * 10 + d * 12) * (1 + 5 / 100))"
  by (simp add: quote_spec_def Let_def)

lemma subtotal_mono:
  fixes price density q1 q2 d1 d2 :: rat
  assumes "0 \<le> price" "0 < density" "q1 \<le> q2" "d1 \<le> d2"
  shows "(price * q1 + ((q1 * 1000) / density) * 10 + d1 * 12) * (1 + 5 / 100)
       \<le> (price * q2 + ((q2 * 1000) / density) * 10 + d2 * 12) * (1 + 5 / 100)"
proof -
  have a: "price * q1 \<le> price * q2"
    using assms(1,3) by (rule mult_left_mono [rotated])
  have "q1 * 1000 \<le> q2 * 1000" using assms(3) by simp
  then have "(q1 * 1000) / density \<le> (q2 * 1000) / density"
    using assms(2) by (simp add: divide_right_mono)
  then have b: "((q1 * 1000) / density) * 10 \<le> ((q2 * 1000) / density) * 10" by simp
  have c: "d1 * 12 \<le> d2 * 12" using assms(4) by simp
  from a b c have "price * q1 + ((q1 * 1000) / density) * 10 + d1 * 12
      \<le> price * q2 + ((q2 * 1000) / density) * 10 + d2 * 12" by linarith
  then show ?thesis by (rule mult_right_mono) simp
qed

lemma subtotal_nonneg:
  fixes price density q d :: rat
  assumes "0 \<le> price" "0 < density" "0 \<le> q" "0 \<le> d"
  shows "0 \<le> (price * q + ((q * 1000) / density) * 10 + d * 12) * (1 + 5 / 100)"
  using subtotal_mono [OF assms(1,2), of 0 q 0 d] assms(3,4) by simp

text \<open>
  Claim C7, as amended. For a fixed oil type and day, the total of \<open>calculate_sale_price\<close>
  never decreases when the quantity or the distance grows: \<open>q1 \<le> q2\<close> and
  \<open>d1 \<le> d2\<close> give \<open>total(q1, d1) \<le> total(q2, d2)\<close>. (With \<open>d1 = d2\<close> this is
  monotonicity in the quantity, with \<open>q1 = q2\<close> in the distance.)
\<close>

theorem calculate_sale_price_mono:
  assumes r1: "calculate_sale_price day oil_type q1 d1 = Inr (t1, p1)"
    and r2: "calculate_sale_price day oil_type q2 d2 = Inr (t2, p2)"
    and q: "q1 \<le> q2" and d: "d1 \<le> d2"
  shows "t1 \<le> t2"
proof (cases "q2 \<le> 0 \<or> d2 \<le> 0")
  case True
  with q d have "q1 \<le> 0 \<or> d1 \<le> 0" by auto
  with True r1 r2 show ?thesis by (simp add: calculate_sale_price_def)
next
  case False
  then have pos2: "0 \<le> q2" "0 \<le> d2" by auto
  from False r2 have b2: "price_body day oil_type q2 d2 = Inr (t2, p2)"
    by (simp add: calculate_sale_price_def)
  from price_defined [OF price_body_Inr [OF b2]] obtain price where
    p: "map_of (fst (get_simulated_oil_prices day)) oil_type = Some price" by blast
  from density_defined [OF price_body_Inr [OF b2]] obtain density where
    dn: "map_of OIL_DENSITIES oil_type = Some density" by blast
  have pp: "(0::rat) \<le> of_int price" using price_pos [OF p] by simp
  note dp = density_pos [OF dn]
  from b2 have "(t2, p2) = quote_spec (of_int price) density q2 d2"
    by (simp only: price_body_known [OF p dn] sum.inject)
  then have "t2 = fst (quote_spec (of_int price) density q2 d2)" by (metis fst_conv)
  then have t2: "t2 = py_round ((of_int price * q2 + ((q2 * 1000) / density) * 10 + d2 * 12) * (1 + 5 / 100))"
    by (simp only: fst_quote_spec)
  show ?thesis
  proof (cases "q1 \<le> 0 \<or> d1 \<le> 0")
    case True
    with r1 have "t1 = 0" by (simp add: calculate_sale_price_def)
    moreover have "0 \<le> t2"
      unfolding t2 by (rule py_round_nonneg) (rule subtotal_nonneg [OF pp dp pos2])
    ultimately show ?thesis by simp
  next
    case False
    with r1 have "price_body day oil_type q1 d1 = Inr (t1, p1)"
      by (simp add: calculate_sale_price_def)
    then have "(t1, p1) = quote_spec (of_int price) density q1 d1"
      by (simp only: price_body_known [OF p dn] sum.inject)
    then have "t1 = fst (quote_spec (of_int price) density q1 d1)" by (metis fst_conv)
    then have t1: "t1 = py_round ((of_int price * q1 + ((q1 * 1000) / density) * 10 + d1 * 12) * (1 + 5 / 100))"
      by (simp only: fst_quote_spec)
    show ?thesis
      unfolding t1 t2 by (rule py_round_mono) (rule subtotal_mono [OF pp dp q d])
  qed
qed

text \<open>
  Claim C7 as stated fails: the total is rounded to an integer, so a small enough
  increase of the quantity (1 to 1.000001) or of the distance (1 to 1.001) leaves the
  total where it was.
\<close>

theorem calculate_sale_price_not_strictly_increasing:
  "(1::rat) < 1000001 / 1000000
   \<and> calculate_sale_price 1 ''Crude Degummed Oil'' 1 1 = Inr (95441, 8781 / 100)
   \<and> calculate_sale_price 1 ''Crude Degummed Oil'' (1000001 / 1000000) 1 = Inr (95441, 8781 / 100)
   \<and> (1::rat) < 1001 / 1000
   \<and> calculate_sale_price 1 ''Crude Degummed Oil'' 1 (1001 / 1000) = Inr (95441, 8781 / 100)"
  by code_simp

theorem calculate_sale_price_mono_witness:
  "calculate_sale_price 1 ''Palm Oil'' 2 50 = Inr (181112, 4143 / 50)
   \<and> calculate_sale_price 1 ''Palm Oil'' 3 60 = Inr (271479, 414 / 5)
   \<and> (181112::int) \<le> 271479"
proof -
  have a: "calculate_sale_price 1 ''Palm Oil'' 2 50 = Inr (181112, 4143 / 50)" by code_simp
  have b: "calculate_sale_price 1 ''Palm Oil'' 3 60 = Inr (271479, 414 / 5)" by code_simp
  from calculate_sale_price_mono [OF a b] a b show ?thesis by simp
qed



text \<open>
  Claim C5 at the input where the two copies of \<open>calculate_sale_price\<close> differ: a
  positive quantity and distance 0. The dashboard's copy returns \<open>(0, 0)\<close>; the sales
  page's copy, whose guard reads the quantity only, returns a price.
\<close>

theorem calculate_sale_price_sales_zero_distance:
  "calculate_sale_price 1 ''Palm Oil'' 1 0 = Inr (0, 0)
   \<and> calculate_sale_price_sales 1 ''Palm Oil'' 1 0 = Inr (90241, 8257 / 100)"
  by code_simp

text \<open>
  The degenerate quote, for every argument: the dashboard's copy returns \<open>(0, 0)\<close>
  when the quantity or the distance is not positive, the sales page's copy when the
  quantity is not positive.
\<close>

theorem calculate_sale_price_degenerate:
  "(quantity_mt \<le> 0 \<or> distance_km \<le> 0
      \<longrightarrow> calculate_sale_price day oil_type quantity_mt distance_km = Inr (0, 0))
   \<and> (quantity_mt \<le> 0
      \<longrightarrow> calculate_sale_price_sales day oil_type quantity_mt distance_km = Inr (0, 0))"
  by (simp add: calculate_sale_price_def calculate_sale_price_sales_def)

theorem calculate_sale_price_degenerate_witness:
  "calculate_sale_price 1 ''Palm Oil'' 5 0 = Inr (0, 0)
   \<and> calculate_sale_price 1 ''Palm Oil'' 0 100 = Inr (0, 0)
   \<and> calculate_sale_price_sales 1 ''Palm Oil'' 0 100 = Inr (0, 0)"
  using calculate_sale_price_degenerate [of 5 0 1 "''Palm Oil''"]
    calculate_sale_price_degenerate [of 0 100 1 "''Palm Oil''"]
  by simp

subsection \<open>Reading and updating the inventory table\<close>

lemma first_index_SomeD:
  "first_index P xs = Some i \<Longrightarrow> i < length xs \<and> P (xs ! i)"
  by (induction xs arbitrary: i) (auto split: if_splits)

lemma first_index_None_iff: "first_index P xs = None \<longleftrightarrow> filter P xs = []"
  by (induction xs) auto

lemma first_index_single:
  "filter P xs = [r] \<Longrightarrow> first_index P xs = Some i \<Longrightarrow> xs ! i = r"
proof (induction xs arbitrary: i)
  case Nil
  then show ?case by simp
next
  case (Cons x xs)
  show ?case
  proof (cases "P x")
    case True
    with Cons.prems show ?thesis by simp
  next
    case False
    with Cons.prems obtain j where j: "first_index P xs = Some j" "i = Suc j" by auto
    from False Cons.prems have "filter P xs = [r]" by simp
    from Cons.IH [OF this j(1)] j(2) show ?thesis by simp
  qed
qed

lemma filter_update_single:
  "filter P xs = [r] \<Longrightarrow> first_index P xs = Some i \<Longrightarrow> P y \<Longrightarrow> filter P (xs[i := y]) = [y]"
proof (induction xs arbitrary: i)
  case Nil
  then show ?case by simp
next
  case (Cons x xs)
  show ?case
  proof (cases "P x")
    case True
    with Cons.prems show ?thesis by simp
  next
    case False
    with Cons.prems obtain j where j: "first_index P xs = Some j" "i = Suc j" by auto
    from False Cons.prems have "filter P xs = [r]" by simp
    from Cons.IH [OF this j(1) Cons.prems(3)] j(2) False show ?thesis by simp
  qed
qed



lemma loc_quantity_filter:
  "loc_quantity inventory_df pool oil =
     (case filter (is_row oil pool) inventory_df of
        [] \<Rightarrow> Inl KeyError | [r] \<Rightarrow> Inr (QuantityMT r) | _ \<Rightarrow> Inl TypeError)"
proof -
  have "filter (\<lambda>r. OilType r = oil) (filter (\<lambda>r. InventoryType r = pool) inventory_df)
          = filter (is_row oil pool) inventory_df"
    by (induction inventory_df) (simp_all add: is_row_def)
  then show ?thesis by (simp only: loc_quantity_def)
qed


lemma loc_quantity_InrD:
  assumes "loc_quantity inventory_df pool oil = Inr q"
  shows "\<exists>r. filter (is_row oil pool) inventory_df = [r] \<and> QuantityMT r = q"
  using assms by (auto simp add: loc_quantity_filter split: list.splits)

lemma loc_quantity_empty:
  "filter (is_row oil pool) inventory_df = [] \<Longrightarrow> loc_quantity inventory_df pool oil = Inl KeyError"
  by (simp add: loc_quantity_filter)

lemma loc_quantity_index:
  assumes "loc_quantity inventory_df pool oil = Inr q"
  shows "\<exists>i. first_index (is_row oil pool) inventory_df = Some i \<and> i < length inventory_df
           \<and> QuantityMT (inventory_df ! i) = q"
proof -
  from loc_quantity_InrD [OF assms] obtain r where
    r: "filter (is_row oil pool) inventory_df = [r]" "QuantityMT r = q" by blast
  then have "first_index (is_row oil pool) inventory_df \<noteq> None"
    by (simp add: first_index_None_iff)
  then obtain i where i: "first_index (is_row oil pool) inventory_df = Some i" by blast
  from first_index_single [OF r(1) i] r(2) first_index_SomeD [OF i] i show ?thesis by simp
qed

lemma is_row_add [simp]:
  "is_row oil pool (r\<lparr>QuantityMT := q\<rparr>) = is_row oil pool r"
  by (simp add: is_row_def)

lemma loc_quantity_add_same:
  assumes "loc_quantity inventory_df pool oil = Inr q"
    and "first_index (is_row oil pool) inventory_df = Some i"
  shows "loc_quantity (add_quantity inventory_df i a) pool oil = Inr (q + a)"
proof -
  from loc_quantity_InrD [OF assms(1)] obtain r where
    r: "filter (is_row oil pool) inventory_df = [r]" "QuantityMT r = q" by blast
  from first_index_single [OF r(1) assms(2)] have ri: "inventory_df ! i = r" .
  from first_index_SomeD [OF assms(2)] have "is_row oil pool (inventory_df ! i)" by simp
  then have "is_row oil pool ((inventory_df ! i)\<lparr>QuantityMT := QuantityMT (inventory_df ! i) + a\<rparr>)"
    by simp
  from filter_update_single [OF r(1) assms(2) this]
  show ?thesis using ri r(2) by (simp add: add_quantity_def loc_quantity_filter)
qed






subsection \<open>Refining\<close>




subsection \<open>Booking a sale\<close>



subsection \<open>Editing a purchase status\<close>

lemma credit_row_same: "credit_row row row im = im"
  by (simp add: credit_row_def)

lemma iterrows_same: "iterrows ps ps im = im"
  by (induction ps) (simp_all add: credit_row_same)

lemma iterrows_update:
  "i < length ps \<Longrightarrow> iterrows ps (ps[i := row]) im = credit_row (ps ! i) row im"
proof (induction ps arbitrary: i im)
  case Nil
  then show ?case by simp
next
  case (Cons p ps)
  then show ?case by (cases i) (simp_all add: iterrows_same credit_row_same)
qed

lemma set_status_same:
  "i < length ps \<Longrightarrow> set_status ps i (p_Status (ps ! i)) = ps"
  by (simp add: set_status_def)

lemma set_status_length [simp]: "length (set_status ps i s) = length ps"
  by (simp add: set_status_def)

lemma set_status_nth:
  "i < length ps \<Longrightarrow> set_status ps i s ! i = (ps ! i)\<lparr>p_Status := s\<rparr>"
  by (simp add: set_status_def)


lemma set_status_neq:
  assumes "i < length ps" and "s \<noteq> p_Status (ps ! i)"
  shows "set_status ps i s \<noteq> ps"
proof
  assume "set_status ps i s = ps"
  then have "set_status ps i s ! i = ps ! i" by simp
  with assms(1) have "(ps ! i)\<lparr>p_Status := s\<rparr> = ps ! i" by (simp add: set_status_nth)
  then have "p_Status ((ps ! i)\<lparr>p_Status := s\<rparr>) = p_Status (ps ! i)" by simp
  with assms(2) show False by simp
qed

lemma update_status_unchanged:
  assumes "i < length ps" and "s = p_Status (ps ! i)"
  shows "update_status i s (ps, inv_df) = ((ps, inv_df), [])"
  using assms by (simp add: update_status_def purchase_editor_def set_status_same)

lemma update_status_changed:
  assumes "i < length ps" and "s \<noteq> p_Status (ps ! i)"
  shows "update_status i s (ps, inv_df)
           = ((set_status ps i s, fst (credit_row (ps ! i) ((ps ! i)\<lparr>p_Status := s\<rparr>) (inv_df, []))),
              snd (credit_row (ps ! i) ((ps ! i)\<lparr>p_Status := s\<rparr>) (inv_df, [])) @ [st_info])"
proof -
  have "iterrows ps (set_status ps i s) (inv_df, [])
          = credit_row (ps ! i) ((ps ! i)\<lparr>p_Status := s\<rparr>) (inv_df, [])"
    using assms(1) by (simp add: set_status_def iterrows_update)
  with set_status_neq [OF assms] show ?thesis
    by (simp add: update_status_def purchase_editor_def split_beta)
qed

lemma update_status_other:
  assumes "i < length ps" and "s \<noteq> ''Reached Factory''"
  shows "fst (update_status i s (ps, inv_df)) = (set_status ps i s, inv_df)"
proof (cases "s = p_Status (ps ! i)")
  case True
  with assms(1) show ?thesis by (simp add: update_status_unchanged set_status_same)
next
  case False
  with assms show ?thesis by (simp add: update_status_changed credit_row_def)
qed

lemma update_status_arrival:
  assumes "i < length ps" and "p_Status (ps ! i) \<noteq> ''Reached Factory''"
    and "first_index (is_row (p_OilType (ps ! i)) ''Crude'') inv_df = Some idx"
  shows "update_status i ''Reached Factory'' (ps, inv_df)
           = ((set_status ps i ''Reached Factory'', add_quantity inv_df idx (p_QuantityMT (ps ! i))),
              [st_success, st_info])"
  using assms by (simp add: update_status_changed credit_row_def)

lemma update_status_arrival_no_row:
  assumes "i < length ps" and "p_Status (ps ! i) \<noteq> ''Reached Factory''"
    and "first_index (is_row (p_OilType (ps ! i)) ''Crude'') inv_df = None"
  shows "update_status i ''Reached Factory'' (ps, inv_df)
           = ((set_status ps i ''Reached Factory'', inv_df), [st_info])"
  using assms by (simp add: update_status_changed credit_row_def)




text \<open>
  Claim C8. Setting \<open>Reached Factory\<close> on a purchase whose stored status is already
  \<open>Reached Factory\<close> changes nothing; two arrival calls in a row on a purchase that had
  not arrived leave the tables the first call left, with the Crude quantity raised by the
  purchase's quantity once; and setting any status other than \<open>Reached Factory\<close>
  writes the status and leaves the inventory table as it was.
\<close>

theorem update_status_arrival_idempotent:
  assumes i: "i < length ps"
  shows "(p_Status (ps ! i) = ''Reached Factory'' \<longrightarrow>
            update_status i ''Reached Factory'' (ps, inv_df) = ((ps, inv_df), []))
       \<and> (p_Status (ps ! i) \<noteq> ''Reached Factory''
            \<and> loc_quantity inv_df ''Crude'' (p_OilType (ps ! i)) = Inr c \<longrightarrow>
            loc_quantity (snd (fst (update_status i ''Reached Factory'' (ps, inv_df)))) ''Crude''
                (p_OilType (ps ! i)) = Inr (c + p_QuantityMT (ps ! i))
            \<and> update_statuses i [''Reached Factory'', ''Reached Factory''] (ps, inv_df)
                = fst (update_status i ''Reached Factory'' (ps, inv_df)))
       \<and> (s \<noteq> ''Reached Factory'' \<longrightarrow>
            fst (update_status i s (ps, inv_df)) = (set_status ps i s, inv_df))"
proof (intro conjI impI)
  assume "p_Status (ps ! i) = ''Reached Factory''"
  then show "update_status i ''Reached Factory'' (ps, inv_df) = ((ps, inv_df), [])"
    using i by (simp add: update_status_unchanged)
next
  assume a: "p_Status (ps ! i) \<noteq> ''Reached Factory''
               \<and> loc_quantity inv_df ''Crude'' (p_OilType (ps ! i)) = Inr c"
  then have st: "p_Status (ps ! i) \<noteq> ''Reached Factory''"
    and c: "loc_quantity inv_df ''Crude'' (p_OilType (ps ! i)) = Inr c" by simp_all
  from loc_quantity_index [OF c] obtain idx where
    idx: "first_index (is_row (p_OilType (ps ! i)) ''Crude'') inv_df = Some idx" by blast
  note first = update_status_arrival [OF i st idx]
  show "loc_quantity (snd (fst (update_status i ''Reached Factory'' (ps, inv_df)))) ''Crude''
          (p_OilType (ps ! i)) = Inr (c + p_QuantityMT (ps ! i))"
    by (simp add: first loc_quantity_add_same [OF c idx])
  have len: "i < length (set_status ps i ''Reached Factory'')" using i by simp
  have st': "p_Status (set_status ps i ''Reached Factory'' ! i) = ''Reached Factory''"
    using i by (simp add: set_status_nth)
  show "update_statuses i [''Reached Factory'', ''Reached Factory''] (ps, inv_df)
          = fst (update_status i ''Reached Factory'' (ps, inv_df))"
    by (simp add: first update_status_unchanged [OF len st' [symmetric]])
next
  assume "s \<noteq> ''Reached Factory''"
  then show "fst (update_status i s (ps, inv_df)) = (set_status ps i s, inv_df)"
    by (rule update_status_other [OF i])
qed

text \<open>
  Claim C10. When a purchase that had not arrived is set to \<open>Reached Factory\<close> and
  the inventory table has no Crude row for its oil type, the new status is saved, the
  inventory table is unchanged, and the only message is the note that changes were
  saved.
\<close>

theorem arrival_without_crude_row:
  assumes "i < length ps" and "p_Status (ps ! i) \<noteq> ''Reached Factory''"
    and "filter (is_row (p_OilType (ps ! i)) ''Crude'') inv_df = []"
  shows "update_status i ''Reached Factory'' (ps, inv_df)
           = ((set_status ps i ''Reached Factory'', inv_df), [st_info])"
proof -
  from assms(3) have "first_index (is_row (p_OilType (ps ! i)) ''Crude'') inv_df = None"
    by (simp only: first_index_None_iff)
  from update_status_arrival_no_row [OF assms(1,2) this] show ?thesis .
qed


lemma example_purchases_eq:
  "example_purchases =
     [\<lparr>ShipmentID = ''SHP-1700000000'', p_OilType = ''Palm Oil'', p_QuantityMT = 5,
       PricePerMT = 70000, TotalCost = 350000, PurchaseDate = ''2024-01-01'',
       p_Status = ''In Transit'', Supplier = ''Global Oil Traders''\<rparr>]"
  by (simp add: example_purchases_def new_purchase_form_def Let_def str_int_def str_nat.simps
        digit_char_def)



theorem update_status_arrival_idempotent_witness:
  "update_status 0 ''Reached Factory'' (set_status example_purchases 0 ''Reached Factory'', initial_inventory)
     = ((set_status example_purchases 0 ''Reached Factory'', initial_inventory), [])
   \<and> loc_quantity (snd (fst (update_status 0 ''Reached Factory'' (example_purchases, initial_inventory))))
        ''Crude'' ''Palm Oil'' = Inr 5
   \<and> update_statuses 0 [''Reached Factory'', ''Reached Factory''] (example_purchases, initial_inventory)
        = fst (update_status 0 ''Reached Factory'' (example_purchases, initial_inventory))
   \<and> fst (update_status 0 ''At Port'' (example_purchases, initial_inventory))
        = (set_status example_purchases 0 ''At Port'', initial_inventory)"
proof -
  have i: "0 < length example_purchases" by (simp add: example_purchases_eq)
  have i': "0 < length (set_status example_purchases 0 ''Reached Factory'')" using i by simp
  have st': "p_Status (set_status example_purchases 0 ''Reached Factory'' ! 0) = ''Reached Factory''"
    using i by (simp add: set_status_nth)
  have st: "p_Status (example_purchases ! 0) \<noteq> ''Reached Factory''"
    by (simp add: example_purchases_eq)
  have oil: "p_OilType (example_purchases ! 0) = ''Palm Oil''" by (simp add: example_purchases_eq)
  have q: "p_QuantityMT (example_purchases ! 0) = 5" by (simp add: example_purchases_eq)
  have c: "loc_quantity initial_inventory ''Crude'' (p_OilType (example_purchases ! 0)) = Inr 0"
    unfolding oil by code_simp
  have s: "''At Port'' \<noteq> ''Reached Factory''" by simp
  from update_status_arrival_idempotent [OF i', of initial_inventory 0 "''At Port''"] st'
  have a: "update_status 0 ''Reached Factory'' (set_status example_purchases 0 ''Reached Factory'', initial_inventory)
     = ((set_status example_purchases 0 ''Reached Factory'', initial_inventory), [])"
    by blast
  from update_status_arrival_idempotent [OF i, of initial_inventory 0 "''At Port''"] st c s
  have b: "loc_quantity (snd (fst (update_status 0 ''Reached Factory'' (example_purchases, initial_inventory))))
        ''Crude'' (p_OilType (example_purchases ! 0)) = Inr (0 + p_QuantityMT (example_purchases ! 0))
   \<and> update_statuses 0 [''Reached Factory'', ''Reached Factory''] (example_purchases, initial_inventory)
        = fst (update_status 0 ''Reached Factory'' (example_purchases, initial_inventory))
   \<and> fst (update_status 0 ''At Port'' (example_purchases, initial_inventory))
        = (set_status example_purchases 0 ''At Port'', initial_inventory)"
    by blast
  from a b show ?thesis by (simp add: oil q)
qed

theorem arrival_without_crude_row_witness:
  "update_status 0 ''Reached Factory'' (example_purchases, take 2 initial_inventory)
     = ((set_status example_purchases 0 ''Reached Factory'', take 2 initial_inventory), [st_info])"
proof -
  have i: "0 < length example_purchases" by (simp add: example_purchases_eq)
  have st: "p_Status (example_purchases ! 0) \<noteq> ''Reached Factory''"
    by (simp add: example_purchases_eq)
  have oil: "p_OilType (example_purchases ! 0) = ''Palm Oil''" by (simp add: example_purchases_eq)
  have none: "filter (is_row (p_OilType (example_purchases ! 0)) ''Crude'') (take 2 initial_inventory) = []"
    unfolding oil by code_simp
  from arrival_without_crude_row [OF i st none] show ?thesis .
qed

subsection \<open>Non-negative quantities\<close>

lemma quantities_nonneg_add:
  assumes "quantities_nonneg inv_df" and "i < length inv_df \<Longrightarrow> 0 \<le> QuantityMT (inv_df ! i) + a"
  shows "quantities_nonneg (add_quantity inv_df i a)"
proof (cases "i < length inv_df")
  case True
  have "set (inv_df[i := (inv_df ! i)\<lparr>QuantityMT := QuantityMT (inv_df ! i) + a\<rparr>])
          \<subseteq> insert ((inv_df ! i)\<lparr>QuantityMT := QuantityMT (inv_df ! i) + a\<rparr>) (set inv_df)"
    by (rule set_update_subset_insert)
  with assms True show ?thesis
    by (auto simp add: quantities_nonneg_def add_quantity_def list_all_iff)
next
  case False
  with assms(1) show ?thesis by (simp add: add_quantity_def list_update_beyond)
qed

lemma quantities_nonneg_nth:
  "quantities_nonneg inv_df \<Longrightarrow> i < length inv_df \<Longrightarrow> 0 \<le> QuantityMT (inv_df ! i)"
  by (simp add: quantities_nonneg_def list_all_length)

lemma credit_row_nonneg:
  assumes "quantities_nonneg (fst im)" and "0 \<le> p_QuantityMT row"
  shows "quantities_nonneg (fst (credit_row orig row im))"
proof -
  have "quantities_nonneg (add_quantity (fst im) idx (p_QuantityMT row))" for idx
  proof (rule quantities_nonneg_add [OF assms(1)])
    assume "idx < length (fst im)"
    from quantities_nonneg_nth [OF assms(1) this] assms(2)
    show "0 \<le> QuantityMT (fst im ! idx) + p_QuantityMT row" by simp
  qed
  with assms(1) show ?thesis
    by (simp add: credit_row_def Let_def split: option.splits)
qed

lemma purchases_positive_nth:
  "purchases_positive ps \<Longrightarrow> i < length ps \<Longrightarrow> 0 < p_QuantityMT (ps ! i)"
  by (simp add: purchases_positive_def list_all_length)

lemma purchases_positive_set_status:
  assumes "purchases_positive ps"
  shows "purchases_positive (set_status ps i s)"
proof (cases "i < length ps")
  case True
  have "set (ps[i := (ps ! i)\<lparr>p_Status := s\<rparr>]) \<subseteq> insert ((ps ! i)\<lparr>p_Status := s\<rparr>) (set ps)"
    by (rule set_update_subset_insert)
  with assms True purchases_positive_nth [OF assms True] show ?thesis
    by (auto simp add: purchases_positive_def set_status_def list_all_iff)
next
  case False
  with assms show ?thesis by (simp add: set_status_def)
qed

lemma update_status_tables:
  "fst (fst (update_status i s (ps, inv_df))) = set_status ps i s"
proof (cases "i < length ps")
  case True
  then show ?thesis
    by (cases "s = p_Status (ps ! i)")
       (simp_all add: update_status_unchanged update_status_changed set_status_same)
next
  case False
  then show ?thesis by (simp add: update_status_def purchase_editor_def set_status_def)
qed

lemma update_status_nonneg:
  assumes "quantities_nonneg inv_df" and "purchases_positive ps"
  shows "quantities_nonneg (snd (fst (update_status i s (ps, inv_df))))"
proof (cases "i < length ps")
  case True
  show ?thesis
  proof (cases "s = p_Status (ps ! i)")
    case True
    with \<open>i < length ps\<close> assms(1) show ?thesis by (simp add: update_status_unchanged)
  next
    case False
    from purchases_positive_nth [OF assms(2) True]
    have "0 \<le> p_QuantityMT ((ps ! i)\<lparr>p_Status := s\<rparr>)" by simp
    from credit_row_nonneg [of "(inv_df, [])" "(ps ! i)\<lparr>p_Status := s\<rparr>" "ps ! i"] assms(1) this
    show ?thesis by (simp add: update_status_changed [OF True False])
  qed
next
  case False
  with assms(1) show ?thesis by (simp add: update_status_def purchase_editor_def set_status_def)
qed

lemma new_purchase_form_positive:
  assumes "purchases_positive ps"
  shows "purchases_positive (fst (new_purchase_form ps now supplier oil_type quantity_mt price_per_mt purchase_date))"
  using assms by (simp add: new_purchase_form_def Let_def purchases_positive_def)

lemma refining_form_nonneg:
  assumes "refining_form inv_df oil x = Inr (inv_df', msg)" and "quantities_nonneg inv_df"
  shows "quantities_nonneg inv_df'"
proof (cases "msg = st_success")
  case False
  with assms show ?thesis
    by (auto simp add: refining_form_def split: sum.splits if_splits option.splits)
next
  case True
  with assms(1) obtain c ci ri where
    c: "loc_quantity inv_df ''Crude'' oil = Inr c" and x: "0 < x" "x \<le> c"
    and ci: "first_index (is_row oil ''Crude'') inv_df = Some ci"
    and ri: "first_index (is_row oil ''Refined'') inv_df = Some ri"
    and res: "inv_df' = add_quantity (add_quantity inv_df ci (- x)) ri x"
    by (auto simp add: refining_form_def split: sum.splits if_splits option.splits)
  from loc_quantity_index [OF c] ci have qc: "QuantityMT (inv_df ! ci) = c" by auto
  have mid: "quantities_nonneg (add_quantity inv_df ci (- x))"
    by (rule quantities_nonneg_add [OF assms(2)]) (use x qc in simp)
  have "quantities_nonneg (add_quantity (add_quantity inv_df ci (- x)) ri x)"
  proof (rule quantities_nonneg_add [OF mid])
    assume "ri < length (add_quantity inv_df ci (- x))"
    from quantities_nonneg_nth [OF mid this] x(1)
    show "0 \<le> QuantityMT (add_quantity inv_df ci (- x) ! ri) + x" by simp
  qed
  with res show ?thesis by simp
qed

lemma new_sale_form_nonneg:
  assumes "new_sale_form sales_df inv_df day now vendor_name destination distance_km oil_type
             quantity_mt order_date = Inr (sales', inv_df', msg)"
    and "quantities_nonneg inv_df"
  shows "quantities_nonneg inv_df'"
proof (cases "msg = st_success")
  case False
  with assms show ?thesis
    by (auto simp add: new_sale_form_def Let_def split: sum.splits if_splits option.splits prod.splits)
next
  case True
  with assms(1) obtain a ri where
    a: "loc_quantity inv_df ''Refined'' oil_type = Inr a" and q: "quantity_mt \<le> a"
    and ri: "first_index (is_row oil_type ''Refined'') inv_df = Some ri"
    and res: "inv_df' = add_quantity inv_df ri (- quantity_mt)"
    by (auto simp add: new_sale_form_def Let_def split: sum.splits if_splits option.splits prod.splits)
  from loc_quantity_index [OF a] ri have "QuantityMT (inv_df ! ri) = a" by auto
  with q have "quantities_nonneg (add_quantity inv_df ri (- quantity_mt))"
    by (intro quantities_nonneg_add [OF assms(2)]) simp
  with res show ?thesis by simp
qed

lemma apply_operation_invariant:
  assumes "quantities_nonneg (inventory t)" and "purchases_positive (purchases t)"
  shows "quantities_nonneg (inventory (apply_operation op t))
       \<and> purchases_positive (purchases (apply_operation op t))"
proof (cases op)
  case (LogPurchase now supplier oil_type quantity_mt price_per_mt purchase_date)
  with assms show ?thesis by (simp add: new_purchase_form_positive)
next
  case (UpdateStatus i s)
  with assms show ?thesis
    by (simp add: split_beta update_status_nonneg update_status_tables
          purchases_positive_set_status)
next
  case (Refine oil x)
  with assms show ?thesis
    by (auto split: sum.splits dest: refining_form_nonneg)
next
  case (BookOrder day now vendor_name destination distance_km oil_type quantity_mt order_date)
  with assms show ?thesis
    by (auto split: sum.splits dest: new_sale_form_nonneg)
qed

lemma apply_operations_invariant:
  assumes "quantities_nonneg (inventory t)" and "purchases_positive (purchases t)"
  shows "quantities_nonneg (inventory (apply_operations ops t))
       \<and> purchases_positive (purchases (apply_operations ops t))"
  using assms
proof (induction ops arbitrary: t)
  case Nil
  then show ?case by simp
next
  case (Cons op ops)
  from apply_operation_invariant [OF Cons.prems, of op] Cons.IH show ?case by simp
qed

text \<open>
  Claim C2. From tables whose inventory quantities are all at least 0 (and whose
  purchases carry the positive quantities the purchase form requires), every sequence
  of operations (logging a purchase, editing a purchase's status, refining, booking a
  sale) leaves every inventory quantity at least 0.
\<close>

theorem quantities_stay_nonneg:
  assumes "quantities_nonneg (inventory t)" and "purchases_positive (purchases t)"
  shows "quantities_nonneg (inventory (apply_operations ops t))"
  using apply_operations_invariant [OF assms] by simp

lemma example_run:
  "loc_quantity (inventory (apply_operations example_operations initial_tables)) ''Crude'' ''Palm Oil'' = Inr 2
   \<and> loc_quantity (inventory (apply_operations example_operations initial_tables)) ''Refined'' ''Palm Oil'' = Inr 1
   \<and> map s_Status (sales (apply_operations example_operations initial_tables)) = [''Confirmed'', ''Under Process'']"
  by code_simp

theorem quantities_stay_nonneg_witness:
  "quantities_nonneg (inventory (apply_operations example_operations initial_tables))
   \<and> loc_quantity (inventory (apply_operations example_operations initial_tables)) ''Crude'' ''Palm Oil'' = Inr 2
   \<and> loc_quantity (inventory (apply_operations example_operations initial_tables)) ''Refined'' ''Palm Oil'' = Inr 1"
proof -
  have a: "quantities_nonneg (inventory initial_tables)" by code_simp
  have b: "purchases_positive (purchases initial_tables)" by code_simp
  from quantities_stay_nonneg [OF a b, of example_operations] example_run show ?thesis by simp
qed

subsection \<open>Order identifiers\<close>

text \<open>
  Claim C9 at two calls within one second. The identifier is built from the clock in
  whole seconds alone, so two purchases logged at the same reading get the same
  \<open>ShipmentID\<close>, and two sales booked at the same reading the same \<open>OrderID\<close>.
\<close>

theorem order_ids_collide_within_one_second:
  "map ShipmentID
     (purchases (apply_operations
        [LogPurchase 1700000000 ''Global Oil Traders'' ''Palm Oil'' 5 70000 ''2024-01-01'',
         LogPurchase 1700000000 ''Sunrise Exports'' ''Palm Degummed'' 7 71000 ''2024-01-01'']
        initial_tables))
     = [''SHP-1700000000'', ''SHP-1700000000'']
   \<and> map OrderID
     (sales (apply_operations
        [BookOrder 1 1700000000 ''National Retailers'' ''Mumbai Warehouse'' 100 ''Palm Oil'' 2
           ''2024-01-02'',
         BookOrder 1 1700000000 ''City Grocers'' ''Pune Depot'' 150 ''Palm Degummed'' 3
           ''2024-01-02'']
        initial_tables))
     = [''ORD-1700000000'', ''ORD-1700000000'']"
  by code_simp

end
